theory Spec2Isabelle
  imports Complex_Main
begin

section \<open>Numbers, constants and world bounds\<close>

text \<open>
  The client is TypeScript; every coordinate, speed and timestamp is a JavaScript
  \<^verbatim>\<open>number\<close>.  Numbers are modelled as \<^typ>\<open>real\<close>; the non-finite values (NaN, the
  infinities) are outside the model.  Arithmetic is exact, except in the anomaly guard and
  the older mover, whose arithmetic is rounded by a parameter (see \<open>double\<close> below).  The
  three implementations found in the repository are embedded side by side:
  \<^item> \<^verbatim>\<open>src/frontend/components/GameCanvas.tsx\<close> (plain names),
  \<^item> \<^verbatim>\<open>src/frontend/hooks/usePlayerMovement.ts\<close> (suffix \<open>_hook\<close>),
  \<^item> \<^verbatim>\<open>src/components/GameCanvas.tsx\<close> (suffix \<open>_legacy\<close>).
\<close>

record bounds =
  minX :: real
  maxX :: real
  minZ :: real
  maxZ :: real

definition MOVEMENT_SPEED :: real where
  "MOVEMENT_SPEED = 15 / 100"

definition WORLD_BOUNDS :: bounds where
  "WORLD_BOUNDS = \<lparr>minX = - 50, maxX = 50, minZ = - 50, maxZ = 50\<rparr>"

definition SEND_INTERVAL :: real where
  "SEND_INTERVAL = 100"

definition MAX_HISTORY_LENGTH :: nat where
  "MAX_HISTORY_LENGTH = 5"

definition ANOMALOUS_SPEED_THRESHOLD :: real where
  "ANOMALOUS_SPEED_THRESHOLD = 1"

definition JUMP_FORCE :: real where
  "JUMP_FORCE = 3 / 10"

definition GRAVITY :: real where
  "GRAVITY = 15 / 1000"

text \<open>\<^verbatim>\<open>Math.max(b.minX, Math.min(b.maxX, v))\<close> and its z twin.\<close>

definition clampX :: "bounds \<Rightarrow> real \<Rightarrow> real" where
  "clampX b v = max (minX b) (min (maxX b) v)"

definition clampZ :: "bounds \<Rightarrow> real \<Rightarrow> real" where
  "clampZ b v = max (minZ b) (min (maxZ b) v)"

text \<open>The WorldBounds predicate of the data model.\<close>

definition in_bounds :: "bounds \<Rightarrow> real \<Rightarrow> real \<Rightarrow> bool" where
  "in_bounds b px pz \<longleftrightarrow> minX b \<le> px \<and> px \<le> maxX b \<and> minZ b \<le> pz \<and> pz \<le> maxZ b"

section \<open>Zone classification\<close>

text \<open>
  \<^verbatim>\<open>updatePlayerZone(x, z)\<close> computes \<^verbatim>\<open>newZone\<close> and stores it with
  \<^verbatim>\<open>setCurrentZone\<close> when it differs from the current zone.  The model takes the
  current zone and returns the zone held afterwards.
\<close>

definition newZone :: "real \<Rightarrow> real \<Rightarrow> string" where
  "newZone px pz =
     (if px < - 10 \<and> pz < - 10 then ''Barbarian Village''
      else if px > 25 \<and> pz < 0 then ''Fishing Spot''
      else if px > 0 \<and> pz > 25 then ''Grand Exchange''
      else if px < - 30 \<or> pz < - 30 \<or> px > 30 \<or> pz > 30 then ''Wilderness''
      else ''Lumbridge'')"

definition updatePlayerZone :: "real \<Rightarrow> real \<Rightarrow> string \<Rightarrow> string" where
  "updatePlayerZone px pz currentZone =
     (if newZone px pz \<noteq> currentZone then newZone px pz else currentZone)"

section \<open>Vectors, meshes and the client state\<close>

text \<open>\<^verbatim>\<open>THREE.Vector3\<close>, also used for the plain \<^verbatim>\<open>{x, y, z}\<close> position objects.\<close>

record vec3 =
  vx :: real
  vy :: real
  vz :: real

definition v_add :: "vec3 \<Rightarrow> vec3 \<Rightarrow> vec3" where
  "v_add a b = \<lparr>vx = vx a + vx b, vy = vy a + vy b, vz = vz a + vz b\<rparr>"

definition v_sub :: "vec3 \<Rightarrow> vec3 \<Rightarrow> vec3" where
  "v_sub a b = \<lparr>vx = vx a - vx b, vy = vy a - vy b, vz = vz a - vz b\<rparr>"

definition multiplyScalar :: "vec3 \<Rightarrow> real \<Rightarrow> vec3" where
  "multiplyScalar a k = \<lparr>vx = vx a * k, vy = vy a * k, vz = vz a * k\<rparr>"

definition v_length :: "vec3 \<Rightarrow> real" where
  "v_length a = sqrt (vx a * vx a + vy a * vy a + vz a * vz a)"

text \<open>three.js: \<^verbatim>\<open>normalize() { return this.divideScalar(this.length() || 1) }\<close>.\<close>

definition divideScalar :: "vec3 \<Rightarrow> real \<Rightarrow> vec3" where
  "divideScalar a k = multiplyScalar a (1 / k)"

definition normalize :: "vec3 \<Rightarrow> vec3" where
  "normalize a = divideScalar a (if v_length a = 0 then 1 else v_length a)"

text \<open>\<^verbatim>\<open>Math.atan2(y, x)\<close> on real arguments (signed zeros are outside the model).\<close>

definition atan2 :: "real \<Rightarrow> real \<Rightarrow> real" where
  "atan2 b a =
     (if a > 0 then arctan (b / a)
      else if a < 0 then (if b \<ge> 0 then arctan (b / a) + pi else arctan (b / a) - pi)
      else if b > 0 then pi / 2
      else if b < 0 then - (pi / 2)
      else 0)"

text \<open>The JavaScript remainder \<^verbatim>\<open>a % b\<close>: the quotient is truncated towards zero.\<close>

definition js_rem :: "real \<Rightarrow> real \<Rightarrow> real" where
  "js_rem a b =
     a - b * of_int (if a / b \<ge> 0 then \<lfloor>a / b\<rfloor> else \<lceil>a / b\<rceil>)"



text \<open>
  A \<^verbatim>\<open>THREE.Mesh\<close> as far as the synchronisation code reads and writes it: its
  position, its yaw and the two \<^verbatim>\<open>userData\<close> entries.  Geometry, material, name labels
  and the scene graph belong to the rendering collaborator and are not modelled.
\<close>

record mesh =
  position :: vec3
  rotation_y :: real
  userData_playerId :: "string option"
  userData_playerName :: "string option"

definition position_set :: "mesh \<Rightarrow> real \<Rightarrow> real \<Rightarrow> real \<Rightarrow> mesh" where
  "position_set m a b c = m\<lparr>position := \<lparr>vx = a, vy = b, vz = c\<rparr>\<rparr>"

record sample =
  s_x :: real
  s_z :: real
  s_time :: real

text \<open>The refs and React state of the \<^verbatim>\<open>GameCanvas\<close> component.\<close>

record client =
  playerRef :: "mesh option"
  playersRef :: "string \<rightharpoonup> mesh"
  isConnected :: bool
  currentZone :: string
  lastSentPosition :: vec3
  lastSendTime :: real
  movementChanged :: bool
  positionHistory :: "sample list"
  isJumping :: bool
  jumpVelocity :: real
  lastUpdateTime :: real

record keys =
  key_w :: bool
  key_a :: bool
  key_s :: bool
  key_d :: bool
  ArrowUp :: bool
  ArrowLeft :: bool
  ArrowDown :: bool
  ArrowRight :: bool

datatype error = TypeError

section \<open>Local movement\<close>

subsection \<open>\<^verbatim>\<open>updatePlayerMovement\<close> of \<^verbatim>\<open>src/frontend/components/GameCanvas.tsx\<close>\<close>

text \<open>
  The keys, the camera angle and \<^verbatim>\<open>Date.now()\<close> are the inputs of a tick.
  \<open>movement_sum\<close> is the vector \<^verbatim>\<open>movement\<close> after the four key tests.  The new position
  is \<^emph>\<open>not\<close> clamped here: the function adds the scaled movement vector and returns.
\<close>

definition movement_sum :: "keys \<Rightarrow> real \<Rightarrow> vec3" where
  "movement_sum keysPressed cameraAngle =
     (let forward = \<lparr>vx = sin cameraAngle, vy = 0, vz = cos cameraAngle\<rparr>;
          right = \<lparr>vx = sin (cameraAngle + pi / 2), vy = 0, vz = cos (cameraAngle + pi / 2)\<rparr>;
          m0 = \<lparr>vx = 0, vy = 0, vz = 0\<rparr>;
          m1 = (if key_w keysPressed \<or> ArrowUp keysPressed then v_sub m0 forward else m0);
          m2 = (if key_s keysPressed \<or> ArrowDown keysPressed then v_add m1 forward else m1);
          m3 = (if key_d keysPressed \<or> ArrowRight keysPressed then v_add m2 right else m2)
      in (if key_a keysPressed \<or> ArrowLeft keysPressed then v_sub m3 right else m3))"

text \<open>The vector added to the position: normalised when non-zero, then scaled.\<close>

definition movement_step :: "keys \<Rightarrow> real \<Rightarrow> vec3" where
  "movement_step keysPressed cameraAngle =
     (let m4 = movement_sum keysPressed cameraAngle;
          m5 = (if v_length m4 > 0 then normalize m4 else m4)
      in multiplyScalar m5 MOVEMENT_SPEED)"

definition updatePlayerMovement :: "keys \<Rightarrow> real \<Rightarrow> real \<Rightarrow> client \<Rightarrow> client" where
  "updatePlayerMovement keysPressed cameraAngle currentTime st =
     (case playerRef st of
        None \<Rightarrow> st
      | Some player \<Rightarrow>
          let m4 = movement_sum keysPressed cameraAngle;
              player1 = (if v_length m4 > 0
                         then player\<lparr>rotation_y := atan2 (vx (normalize m4)) (vz (normalize m4))\<rparr>
                         else player);
              movement = movement_step keysPressed cameraAngle;
              p1 = (position player1)\<lparr>vx := vx (position player1) + vx movement,
                                        vz := vz (position player1) + vz movement\<rparr>
          in if isJumping st
             then (let y1 = vy p1 + jumpVelocity st
                   in if y1 \<le> 1
                      then st\<lparr>lastUpdateTime := currentTime,
                              playerRef := Some (player1\<lparr>position := p1\<lparr>vy := 1\<rparr>\<rparr>),
                              isJumping := False, jumpVelocity := 0\<rparr>
                      else st\<lparr>lastUpdateTime := currentTime,
                              playerRef := Some (player1\<lparr>position := p1\<lparr>vy := y1\<rparr>\<rparr>),
                              jumpVelocity := jumpVelocity st - GRAVITY\<rparr>)
             else st\<lparr>lastUpdateTime := currentTime,
                     playerRef := Some (player1\<lparr>position := p1\<rparr>)\<rparr>)"

text \<open>A run of ticks, each with its own keys, camera angle and clock reading.\<close>

fun ticks :: "(keys \<times> real \<times> real) list \<Rightarrow> client \<Rightarrow> client" where
  "ticks [] st = st"
| "ticks ((k, a, t) # rest) st = ticks rest (updatePlayerMovement k a t st)"

subsection \<open>\<^verbatim>\<open>updatePlayerMovement\<close> of \<^verbatim>\<open>src/frontend/hooks/usePlayerMovement.ts\<close>\<close>

text \<open>
  The hook imports its constants from \<^verbatim>\<open>../constants\<close> and
  \<^verbatim>\<open>../game/world/WorldManager\<close>, which are not part of the sources at hand; they are
  parameters of the model.
\<close>

record constants =
  FIXED_SPEED_FACTOR :: real
  c_GRAVITY :: real
  c_JUMP_FORCE :: real
  PLAYER_DEFAULT_Y :: real
  c_WORLD_BOUNDS :: bounds

record PlayerInputState =
  moveForward :: bool
  moveBackward :: bool
  moveLeft :: bool
  moveRight :: bool
  attemptJump :: bool

record hook_state =
  h_playerRef :: "mesh option"
  h_isJumping :: bool
  h_jumpVelocity :: real
  movementOccurred :: bool

text \<open>The horizontal movement vector the hook adds up; no normalisation takes place.\<close>

definition hook_move :: "constants \<Rightarrow> PlayerInputState \<Rightarrow> real \<Rightarrow> real \<times> real" where
  "hook_move c inputState cameraAngle =
     (let speedHalf = FIXED_SPEED_FACTOR c / 2;
          (x1, z1) = (if moveForward inputState
                      then (0 - (sin cameraAngle * 2) * speedHalf,
                            0 - (cos cameraAngle * 2) * speedHalf)
                      else (0, 0));
          (x2, z2) = (if moveBackward inputState
                      then (x1 + (sin cameraAngle * 2) * speedHalf,
                            z1 + (cos cameraAngle * 2) * speedHalf)
                      else (x1, z1));
          (x3, z3) = (if moveLeft inputState
                      then (x2 - (sin (cameraAngle + pi / 2) * 2) * speedHalf,
                            z2 - (cos (cameraAngle + pi / 2) * 2) * speedHalf)
                      else (x2, z2))
      in (if moveRight inputState
          then (x3 + (sin (cameraAngle + pi / 2) * 2) * speedHalf,
                z3 + (cos (cameraAngle + pi / 2) * 2) * speedHalf)
          else (x3, z3)))"

text \<open>
  The result is the new state and whether \<^verbatim>\<open>consumeJumpAttempt()\<close> was called.
\<close>

definition updatePlayerMovement_hook ::
  "constants \<Rightarrow> PlayerInputState \<Rightarrow> real \<Rightarrow> hook_state \<Rightarrow> hook_state \<times> bool" where
  "updatePlayerMovement_hook c inputState cameraAngle st =
     (case h_playerRef st of
        None \<Rightarrow> (st\<lparr>movementOccurred := False\<rparr>, False)
      | Some playerMesh \<Rightarrow>
          let startJump = (attemptJump inputState \<and> \<not> h_isJumping st);
              jumping1 = (h_isJumping st \<or> startJump);
              velocity1 = (if startJump then c_JUMP_FORCE c else h_jumpVelocity st);
              y1 = vy (position playerMesh) + velocity1;
              landed = (y1 \<le> PLAYER_DEFAULT_Y c);
              y2 = (if jumping1 then (if landed then PLAYER_DEFAULT_Y c else y1)
                    else vy (position playerMesh));
              jumping2 = (jumping1 \<and> \<not> landed);
              velocity2 = (if jumping1 then (if landed then 0 else velocity1 - c_GRAVITY c)
                           else velocity1);
              mesh1 = playerMesh\<lparr>position := (position playerMesh)\<lparr>vy := y2\<rparr>\<rparr>;
              (moveX, moveZ) = hook_move c inputState cameraAngle;
              newX = vx (position mesh1) + moveX;
              newZ = vz (position mesh1) + moveZ;
              boundedX = clampX (c_WORLD_BOUNDS c) newX;
              boundedZ = clampZ (c_WORLD_BOUNDS c) newZ;
              moving = (moveX \<noteq> 0 \<or> moveZ \<noteq> 0);
              moved = (moving \<and> (vx (position mesh1) \<noteq> boundedX \<or> vz (position mesh1) \<noteq> boundedZ));
              mesh2 = (if moved
                       then mesh1\<lparr>position := (position mesh1)\<lparr>vx := boundedX, vz := boundedZ\<rparr>\<rparr>
                       else mesh1);
              moveAngle = atan2 moveX moveZ;
              rotationDiff = moveAngle - rotation_y mesh2;
              normalizedDiff = js_rem (rotationDiff + pi) (pi * 2) - pi;
              rotationStep = (normalizedDiff * (3 / 10)) / 2;
              turned = (moving \<and> \<bar>rotationStep\<bar> > 1 / 1000);
              mesh3 = (if turned then mesh2\<lparr>rotation_y := rotation_y mesh2 + rotationStep\<rparr>
                       else mesh2)
          in (st\<lparr>h_playerRef := Some mesh3, h_isJumping := jumping2,
                 h_jumpVelocity := velocity2,
                 movementOccurred := (jumping1 \<or> moved \<or> turned)\<rparr>,
              startJump))"

section \<open>Anomaly guard\<close>

text \<open>
  \<^verbatim>\<open>detectAnomalousMovement\<close> is the same text in both \<^verbatim>\<open>GameCanvas.tsx\<close> files.  With
  fewer than two samples \<^verbatim>\<open>previous\<close> (or \<^verbatim>\<open>latest\<close>) is \<^verbatim>\<open>undefined\<close> and reading its
  field throws a TypeError.  Every arithmetic result is rounded by \<open>fl\<close>, in the order the
  source computes it: the differences, \<^verbatim>\<open>Math.pow(_, 2)\<close> as the rounded square, the sum,
  \<^verbatim>\<open>Math.sqrt\<close> as the rounded root, the quotients and the products.  The literal 0.15 of
  \<^verbatim>\<open>MOVEMENT_SPEED\<close> is rounded as well; the literals 1.0, 2 and 1000 are doubles as they
  stand.  \<^verbatim>\<open>Math.max\<close> and \<^verbatim>\<open>Math.min\<close> do not round.
\<close>

definition detectAnomalousMovement :: "(real \<Rightarrow> real) \<Rightarrow> client \<Rightarrow> error + client" where
  "detectAnomalousMovement fl st =
     (let history = positionHistory st in
      if length history < 2 then Inl TypeError
      else
        let latest = history ! (length history - 1);
            previous = history ! (length history - 2);
            diffX = fl (s_x latest - s_x previous);
            diffZ = fl (s_z latest - s_z previous);
            distance = fl (sqrt (fl (fl (diffX\<^sup>2) + fl (diffZ\<^sup>2))));
            timeDiff = fl (fl (s_time latest - s_time previous) / 1000)
        in if timeDiff > 0
           then (let speed = fl (distance / timeDiff) in
                 case playerRef st of
                   None \<Rightarrow> Inr st
                 | Some player \<Rightarrow>
                     if speed > ANOMALOUS_SPEED_THRESHOLD
                     then (let maxAllowedDistance = fl (fl MOVEMENT_SPEED * 2) in
                           if distance > maxAllowedDistance
                           then (let dirX = fl (diffX / distance);
                                     dirZ = fl (diffZ / distance);
                                     cappedX = fl (s_x previous + fl (dirX * maxAllowedDistance));
                                     cappedZ = fl (s_z previous + fl (dirZ * maxAllowedDistance));
                                     boundedX = clampX WORLD_BOUNDS cappedX;
                                     boundedZ = clampZ WORLD_BOUNDS cappedZ
                                 in Inr (st\<lparr>playerRef :=
                                             Some (player\<lparr>position :=
                                               (position player)\<lparr>vx := boundedX, vz := boundedZ\<rparr>\<rparr>),
                                           positionHistory :=
                                             history[length history - 1 :=
                                               \<lparr>s_x = boundedX, s_z = boundedZ,
                                                s_time = s_time latest\<rparr>]\<rparr>))
                           else Inr st)
                     else Inr st)
           else Inr st)"

subsection \<open>\<^verbatim>\<open>updatePlayerMovement\<close> of \<^verbatim>\<open>src/components/GameCanvas.tsx\<close>\<close>

text \<open>
  Inputs of a tick: the keys, \<^verbatim>\<open>clockRef.current.getDelta()\<close> and \<^verbatim>\<open>Date.now()\<close>.
  \<^verbatim>\<open>Array.shift\<close> is \<^const>\<open>tl\<close>; \<open>legacy_move\<close> is the pair \<^verbatim>\<open>(moveX, moveZ)\<close> after the
  four key tests.  The arithmetic is rounded by \<open>fl\<close> as in the guard.
\<close>

definition legacy_move :: "(real \<Rightarrow> real) \<Rightarrow> keys \<Rightarrow> real \<times> real" where
  "legacy_move fl keysPressed =
     (let z1 = (if key_w keysPressed \<or> ArrowUp keysPressed then fl (0 - fl MOVEMENT_SPEED) else 0);
          x1 = (if key_a keysPressed \<or> ArrowLeft keysPressed then fl (0 - fl MOVEMENT_SPEED) else 0);
          moveZ = (if key_s keysPressed \<or> ArrowDown keysPressed then fl (z1 + fl MOVEMENT_SPEED)
                   else z1);
          moveX = (if key_d keysPressed \<or> ArrowRight keysPressed then fl (x1 + fl MOVEMENT_SPEED)
                   else x1)
      in (moveX, moveZ))"

definition updatePlayerMovement_legacy ::
  "(real \<Rightarrow> real) \<Rightarrow> keys \<Rightarrow> real \<Rightarrow> real \<Rightarrow> client \<Rightarrow> error + client" where
  "updatePlayerMovement_legacy fl keysPressed delta t st =
     (case playerRef st of
        None \<Rightarrow> Inr st
      | Some player \<Rightarrow>
          let moveX = fst (legacy_move fl keysPressed);
              moveZ = snd (legacy_move fl keysPressed)
          in if moveX \<noteq> 0 \<or> moveZ \<noteq> 0
             then (let newX = clampX WORLD_BOUNDS
                                (fl (vx (position player) + fl (fl (moveX * delta) * 60)));
                       newZ = clampZ WORLD_BOUNDS
                                (fl (vz (position player) + fl (fl (moveZ * delta) * 60)))
                   in if \<bar>fl (newX - vx (position player))\<bar> > fl (1 / 10000)
                         \<or> \<bar>fl (newZ - vz (position player))\<bar> > fl (1 / 10000)
                      then (let pushed = positionHistory st @ [\<lparr>s_x = newX, s_z = newZ, s_time = t\<rparr>];
                                history = (if length pushed > MAX_HISTORY_LENGTH then tl pushed
                                           else pushed);
                                st1 = st\<lparr>playerRef :=
                                           Some (player\<lparr>position :=
                                             (position player)\<lparr>vx := newX, vz := newZ\<rparr>\<rparr>),
                                         movementChanged := True,
                                         currentZone := updatePlayerZone newX newZ (currentZone st),
                                         positionHistory := history\<rparr>
                            in if length history \<ge> 2 then detectAnomalousMovement fl st1
                               else Inr st1)
                      else Inr st)
             else Inr st)"

section \<open>Outbound position reports\<close>

record socket =
  connected :: bool
  socket_id :: "string option"

text \<open>
  What a send attempt reads from its surroundings: \<^verbatim>\<open>isSocketReady()\<close>,
  \<^verbatim>\<open>Date.now()\<close> and the socket that \<^verbatim>\<open>await getSocket()\<close> yields (\<open>None\<close> for null).
  The attempt is taken as one atomic step; an exception thrown by \<^verbatim>\<open>emit\<close> is not
  modelled.
\<close>

record send_env =
  isSocketReady :: bool
  now :: real
  getSocket :: "socket option"

text \<open>
  \<^verbatim>\<open>sendPositionUpdate\<close> of \<^verbatim>\<open>src/frontend/components/GameCanvas.tsx\<close>: the new state
  and the \<^verbatim>\<open>playerMove\<close> message, if one was emitted.
\<close>

definition sendPositionUpdate :: "send_env \<Rightarrow> client \<Rightarrow> client \<times> vec3 option" where
  "sendPositionUpdate env st =
     (case playerRef st of
        None \<Rightarrow> (st, None)
      | Some player \<Rightarrow>
          if \<not> isConnected st then (st, None)
          else if \<not> isSocketReady env then (st, None)
          else if \<not> movementChanged st then (st, None)
          else if now env - lastSendTime st \<ge> SEND_INTERVAL
          then (let pos = position player;
                    dx = \<bar>vx pos - vx (lastSentPosition st)\<bar>;
                    dz = \<bar>vz pos - vz (lastSentPosition st)\<bar>
                in if dx > 1 / 100 \<or> dz > 1 / 100
                   then (let validatedPosition =
                               \<lparr>vx = clampX WORLD_BOUNDS (vx pos), vy = vy pos,
                                vz = clampZ WORLD_BOUNDS (vz pos)\<rparr>
                         in case getSocket env of
                              None \<Rightarrow> (st\<lparr>isConnected := False, movementChanged := False\<rparr>, None)
                            | Some sock \<Rightarrow>
                                if connected sock
                                then (st\<lparr>lastSentPosition := validatedPosition,
                                         lastSendTime := now env,
                                         movementChanged := False\<rparr>,
                                      Some validatedPosition)
                                else (st\<lparr>isConnected := False, movementChanged := False\<rparr>, None))
                   else (st\<lparr>movementChanged := False\<rparr>, None))
          else (st\<lparr>movementChanged := False\<rparr>, None))"

text \<open>
  \<^verbatim>\<open>sendPositionUpdate\<close> of \<^verbatim>\<open>src/components/GameCanvas.tsx\<close>; here the flag is reset
  inside the time gate.
\<close>

definition sendPositionUpdate_legacy :: "real \<Rightarrow> client \<Rightarrow> client \<times> vec3 option" where
  "sendPositionUpdate_legacy t st =
     (case playerRef st of
        None \<Rightarrow> (st, None)
      | Some player \<Rightarrow>
          if \<not> isConnected st \<or> \<not> movementChanged st then (st, None)
          else if t - lastSendTime st \<ge> SEND_INTERVAL
          then (let pos = position player;
                    dx = \<bar>vx pos - vx (lastSentPosition st)\<bar>;
                    dz = \<bar>vz pos - vz (lastSentPosition st)\<bar>
                in if dx > 1 / 100 \<or> dz > 1 / 100
                   then (let validatedPosition =
                               \<lparr>vx = clampX WORLD_BOUNDS (vx pos), vy = vy pos,
                                vz = clampZ WORLD_BOUNDS (vz pos)\<rparr>
                         in (st\<lparr>lastSentPosition := validatedPosition,
                                lastSendTime := t,
                                movementChanged := False\<rparr>,
                             Some validatedPosition))
                   else (st\<lparr>movementChanged := False\<rparr>, None))
          else (st, None))"

text \<open>
  A history of the client as the throttle sees it: local position mutations (which raise
  the "changed" flag), connection changes and send attempts.  \<open>reports\<close> collects the
  emitted messages, each with the clock reading of its attempt.
\<close>

datatype event = Mutation vec3 | Connection bool | SendAttempt send_env

fun reports :: "client \<Rightarrow> event list \<Rightarrow> (real \<times> vec3) list" where
  "reports st [] = []"
| "reports st (Mutation p # es) =
     reports (st\<lparr>playerRef := map_option (\<lambda>m. m\<lparr>position := p\<rparr>) (playerRef st),
                 movementChanged := True\<rparr>) es"
| "reports st (Connection b # es) = reports (st\<lparr>isConnected := b\<rparr>) es"
| "reports st (SendAttempt env # es) =
     (case sendPositionUpdate env st of
        (st', None) \<Rightarrow> reports st' es
      | (st', Some r) \<Rightarrow> (now env, r) # reports st' es)"

text \<open>
  The frame loop of the older component: every frame runs the mover and then a send
  attempt (each with its own clock reading); an exception ends the loop.  The result is the
  list of emitted reports with the clock readings of their attempts.
\<close>

fun frames_legacy ::
  "(real \<Rightarrow> real) \<Rightarrow> client \<Rightarrow> (keys \<times> real \<times> real \<times> real) list \<Rightarrow> (real \<times> vec3) list" where
  "frames_legacy fl st [] = []"
| "frames_legacy fl st ((k, delta, t1, t2) # fs) =
     (case updatePlayerMovement_legacy fl k delta t1 st of
        Inl e \<Rightarrow> []
      | Inr st1 \<Rightarrow>
          (case sendPositionUpdate_legacy t2 st1 of
             (st2, None) \<Rightarrow> frames_legacy fl st2 fs
           | (st2, Some r) \<Rightarrow> (t2, r) # frames_legacy fl st2 fs))"

section \<open>Remote entities\<close>

text \<open>
  The \<^verbatim>\<open>Player\<close> objects of the wire protocol and the payload of \<^verbatim>\<open>playerMoved\<close>.
\<close>

record Player =
  p_id :: string
  p_name :: string
  p_x :: real
  p_y :: real
  p_z :: real
  p_userId :: string

record moved =
  ev_id :: string
  ev_x :: real
  ev_y :: real
  ev_z :: real

text \<open>
  \<^verbatim>\<open>socket.id\<close> is a string or \<^verbatim>\<open>undefined\<close>; the guard of the handler is
  \<^verbatim>\<open>data.id === socket.id || data.id === 'TEST-' + socket.id\<close>.
\<close>

definition is_own_player :: "string option \<Rightarrow> string \<Rightarrow> bool" where
  "is_own_player sid i \<longleftrightarrow>
     sid = Some i \<or> i = ''TEST-'' @ (case sid of Some s \<Rightarrow> s | None \<Rightarrow> ''undefined'')"

text \<open>
  \<^verbatim>\<open>createPlayerMesh\<close> of the frontend: nothing for the own id; otherwise the old entry
  is deleted and a fresh mesh at the player's position is registered under its id.
\<close>

definition createPlayerMesh :: "string option \<Rightarrow> Player \<Rightarrow> client \<Rightarrow> client" where
  "createPlayerMesh sid player st =
     (if sid = Some (p_id player) then st
      else st\<lparr>playersRef := (playersRef st)(p_id player \<mapsto>
                 \<lparr>position = \<lparr>vx = p_x player, vy = p_y player, vz = p_z player\<rparr>,
                  rotation_y = 0,
                  userData_playerId = Some (p_id player),
                  userData_playerName = Some (p_name player)\<rparr>)\<rparr>)"

datatype request = GetPlayerData string

definition LARGE_MOVEMENT_THRESHOLD :: real where
  "LARGE_MOVEMENT_THRESHOLD = 5"

text \<open>
  The \<^verbatim>\<open>playerMoved\<close> handler of the frontend.  For an unknown id it emits
  \<^verbatim>\<open>getPlayerData\<close> and returns; the reply arrives later at the callback below.
\<close>

definition playerMoved :: "string option \<Rightarrow> moved \<Rightarrow> client \<Rightarrow> client \<times> request option" where
  "playerMoved sid data st =
     (if is_own_player sid (ev_id data) then (st, None)
      else case playersRef st (ev_id data) of
        Some playerMesh \<Rightarrow>
          let validX = clampX WORLD_BOUNDS (ev_x data);
              validZ = clampZ WORLD_BOUNDS (ev_z data);
              currentPos = position playerMesh;
              distanceToNewPos = sqrt ((validX - vx currentPos)\<^sup>2 + (validZ - vz currentPos)\<^sup>2)
          in if distanceToNewPos > LARGE_MOVEMENT_THRESHOLD
             then (let midX = vx currentPos + (validX - vx currentPos) * (1 / 2);
                       midZ = vz currentPos + (validZ - vz currentPos) * (1 / 2)
                   in (st\<lparr>playersRef := (playersRef st)(ev_id data \<mapsto>
                             position_set playerMesh midX (ev_y data) midZ)\<rparr>, None))
             else (st\<lparr>playersRef := (playersRef st)(ev_id data \<mapsto>
                         position_set playerMesh validX (ev_y data) validZ)\<rparr>, None)
      | None \<Rightarrow> (st, Some (GetPlayerData (ev_id data))))"

text \<open>
  The callback of \<^verbatim>\<open>getPlayerData\<close>: \<open>playerData\<close> is the server's answer, \<open>None\<close> for
  a null answer, which makes the handler build \<^verbatim>\<open>minimalPlayer\<close>.
\<close>

definition playerMoved_reply ::
  "string option \<Rightarrow> moved \<Rightarrow> Player option \<Rightarrow> client \<Rightarrow> client" where
  "playerMoved_reply sid data playerData st =
     (case playerData of
        Some pd \<Rightarrow> createPlayerMesh sid pd st
      | None \<Rightarrow>
          createPlayerMesh sid
            \<lparr>p_id = ev_id data, p_name = ''Player-'' @ take 4 (ev_id data),
             p_x = ev_x data, p_y = ev_y data, p_z = ev_z data, p_userId = []\<rparr> st)"

text \<open>The handler together with the answer of the server, delivered at once.\<close>

definition playerMoved_resolved ::
  "string option \<Rightarrow> (string \<Rightarrow> Player option) \<Rightarrow> moved \<Rightarrow> client \<Rightarrow> client" where
  "playerMoved_resolved sid lookup data st =
     (case playerMoved sid data st of
        (st', None) \<Rightarrow> st'
      | (st', Some (GetPlayerData i)) \<Rightarrow> playerMoved_reply sid data (lookup i) st')"

text \<open>
  The \<^verbatim>\<open>playerMoved\<close> handler of \<^verbatim>\<open>src/components/GameCanvas.tsx\<close>: no own-id guard, and
  an unknown id is ignored.
\<close>

definition playerMoved_legacy :: "moved \<Rightarrow> client \<Rightarrow> client" where
  "playerMoved_legacy data st =
     (case playersRef st (ev_id data) of
        Some playerMesh \<Rightarrow>
          let validX = clampX WORLD_BOUNDS (ev_x data);
              validZ = clampZ WORLD_BOUNDS (ev_z data);
              currentPos = position playerMesh;
              distanceToNewPos = sqrt ((validX - vx currentPos)\<^sup>2 + (validZ - vz currentPos)\<^sup>2)
          in if distanceToNewPos > LARGE_MOVEMENT_THRESHOLD
             then (let midX = vx currentPos + (validX - vx currentPos) * (1 / 2);
                       midZ = vz currentPos + (validZ - vz currentPos) * (1 / 2)
                   in st\<lparr>playersRef := (playersRef st)(ev_id data \<mapsto>
                            position_set playerMesh midX (ev_y data) midZ)\<rparr>)
             else st\<lparr>playersRef := (playersRef st)(ev_id data \<mapsto>
                        position_set playerMesh validX (ev_y data) validZ)\<rparr>
      | None \<Rightarrow> st)"

text \<open>The state right after the component has mounted and created the local player.\<close>

definition initial_client :: client where
  "initial_client =
     \<lparr>playerRef = Some \<lparr>position = \<lparr>vx = 0, vy = 1, vz = 0\<rparr>, rotation_y = 0,
                         userData_playerId = None, userData_playerName = None\<rparr>,
      playersRef = Map.empty,
      isConnected = False,
      currentZone = ''Lumbridge'',
      lastSentPosition = \<lparr>vx = 0, vy = 1, vz = 0\<rparr>,
      lastSendTime = 0,
      movementChanged = False,
      positionHistory = [],
      isJumping = False,
      jumpVelocity = 0,
      lastUpdateTime = 0\<rparr>"

text \<open>The mounted client with one remote player ''p2'' registered at (a, 1, b).\<close>

definition remote_at :: "real \<Rightarrow> real \<Rightarrow> client" where
  "remote_at a b = initial_client\<lparr>playersRef := [''p2'' \<mapsto>
      \<lparr>position = \<lparr>vx = a, vy = 1, vz = b\<rparr>, rotation_y = 0,
       userData_playerId = Some ''p2'', userData_playerName = Some ''Bob''\<rparr>]\<rparr>"

text \<open>
  A connected client whose local player stands at (a, 1, b) with the "changed" flag raised,
  the last report sent at clock reading 1000 from (0, 1, 0); and a send attempt at clock
  reading \<open>t\<close> with a live socket.
\<close>

definition moving_client :: "real \<Rightarrow> real \<Rightarrow> client" where
  "moving_client a b = initial_client\<lparr>playerRef := Some \<lparr>position = \<lparr>vx = a, vy = 1, vz = b\<rparr>,
        rotation_y = 0, userData_playerId = None, userData_playerName = None\<rparr>,
      isConnected := True, movementChanged := True, lastSendTime := 1000\<rparr>"

definition attempt_at :: "real \<Rightarrow> send_env" where
  "attempt_at t = \<lparr>isSocketReady = True, now = t,
      getSocket = Some \<lparr>connected = True, socket_id = Some ''me''\<rparr>\<rparr>"

text \<open>The bounds invariant on history samples and on the local player.\<close>

definition sample_in_bounds :: "sample \<Rightarrow> bool" where
  "sample_in_bounds s \<longleftrightarrow> in_bounds WORLD_BOUNDS (s_x s) (s_z s)"

definition player_in_bounds :: "bounds \<Rightarrow> mesh option \<Rightarrow> bool" where
  "player_in_bounds b p =
     (case p of None \<Rightarrow> True | Some m \<Rightarrow> in_bounds b (vx (position m)) (vz (position m)))"





text \<open>No key held; the horizontal coordinates of the local player, if there is one.\<close>

definition no_keys :: keys where
  "no_keys = \<lparr>key_w = False, key_a = False, key_s = False, key_d = False,
      ArrowUp = False, ArrowLeft = False, ArrowDown = False, ArrowRight = False\<rparr>"

definition local_xz :: "mesh option \<Rightarrow> (real \<times> real) option" where
  "local_xz p = map_option (\<lambda>m. (vx (position m), vz (position m))) p"

text \<open>
  Values for the constants of the hook (those of \<^verbatim>\<open>GameCanvas.tsx\<close>), its state after
  mounting, and the input "forward and right".
\<close>

definition hook_constants :: constants where
  "hook_constants = \<lparr>FIXED_SPEED_FACTOR = 15 / 100, c_GRAVITY = 15 / 1000, c_JUMP_FORCE = 3 / 10,
      PLAYER_DEFAULT_Y = 1, c_WORLD_BOUNDS = WORLD_BOUNDS\<rparr>"

definition hook_initial :: hook_state where
  "hook_initial = \<lparr>h_playerRef = playerRef initial_client, h_isJumping = False,
      h_jumpVelocity = 0, movementOccurred = False\<rparr>"

definition forward_right :: PlayerInputState where
  "forward_right = \<lparr>moveForward = True, moveBackward = False, moveLeft = False,
      moveRight = True, attemptJump = False\<rparr>"

section \<open>Zone classification: results\<close>

text \<open>
  Claim C5, as stated, at the fourth literal: the point (40, 40) satisfies the third rule
  (x > 0 and z > 25), which is tried before the Wilderness rule, so the classifier does
  not answer "Wilderness" there.
\<close>

theorem C5_zone_40_40_counterexample:
  "updatePlayerZone 40 40 ''Lumbridge'' \<noteq> ''Wilderness''"
  by (simp add: updatePlayerZone_def newZone_def)

text \<open>
  Claim C5, amended: whatever the current zone, the classifier leaves
  (-20,-20) in "Barbarian Village", (30,-10) in "Fishing Spot", (5,30) in
  "Grand Exchange", (40,40) in "Grand Exchange" and (0,0) in "Lumbridge".
\<close>

theorem C5_zone_literals:
  "updatePlayerZone (- 20) (- 20) cz = ''Barbarian Village''
   \<and> updatePlayerZone 30 (- 10) cz = ''Fishing Spot''
   \<and> updatePlayerZone 5 30 cz = ''Grand Exchange''
   \<and> updatePlayerZone 40 40 cz = ''Grand Exchange''
   \<and> updatePlayerZone 0 0 cz = ''Lumbridge''"
  by (simp add: updatePlayerZone_def newZone_def)

section \<open>Auxiliary facts\<close>


lemma clampX_in: "minX b \<le> maxX b \<Longrightarrow> minX b \<le> clampX b v \<and> clampX b v \<le> maxX b"
  by (simp add: clampX_def)

lemma clampZ_in: "minZ b \<le> maxZ b \<Longrightarrow> minZ b \<le> clampZ b v \<and> clampZ b v \<le> maxZ b"
  by (simp add: clampZ_def)

lemma in_bounds_clamp: "in_bounds WORLD_BOUNDS (clampX WORLD_BOUNDS a) (clampZ WORLD_BOUNDS c)"
  by (simp add: in_bounds_def clampX_def clampZ_def WORLD_BOUNDS_def)

lemma midpoint_between:
  fixes a b :: real
  shows "lo \<le> a \<Longrightarrow> a \<le> hi \<Longrightarrow> lo \<le> b \<Longrightarrow> b \<le> hi
    \<Longrightarrow> lo \<le> a + (b - a) * (1 / 2) \<and> a + (b - a) * (1 / 2) \<le> hi"
  by (simp add: field_simps)

section \<open>Remote entities: results\<close>

text \<open>
  Claim C10: a \<^verbatim>\<open>playerMoved\<close> event whose id is the client's own socket id leaves the
  whole client state as it was (local position, registry, every remote position) and
  emits no request.
\<close>

theorem C10_own_move_ignored:
  "sid = Some (ev_id d) \<Longrightarrow> playerMoved sid d st = (st, None)"
  by (simp add: playerMoved_def is_own_player_def)

theorem C10_own_move_ignored_witness:
  "playerMoved (Some ''me'') \<lparr>ev_id = ''me'', ev_x = 3, ev_y = 1, ev_z = 4\<rparr> (remote_at 7 7)
     = (remote_at 7 7, None)"
  using C10_own_move_ignored [of "Some ''me''"
      "\<lparr>ev_id = ''me'', ev_x = 3, ev_y = 1, ev_z = 4\<rparr>" "remote_at 7 7"]
  by simp




text \<open>The older handler has no own-id guard; the same rule holds for every registered id.\<close>

lemma playerMoved_legacy_known:
  assumes "playersRef st (ev_id d) = Some m"
  shows "\<exists>m'. playersRef (playerMoved_legacy d st) (ev_id d) = Some m'
     \<and> (let tx = clampX WORLD_BOUNDS (ev_x d); tz = clampZ WORLD_BOUNDS (ev_z d);
             cx = vx (position m); cz = vz (position m);
             dist = sqrt ((tx - cx)\<^sup>2 + (tz - cz)\<^sup>2)
         in (dist > 5 \<longrightarrow> vx (position m') = cx + 0.5 * (tx - cx)
                          \<and> vz (position m') = cz + 0.5 * (tz - cz))
          \<and> (dist \<le> 5 \<longrightarrow> vx (position m') = tx \<and> vz (position m') = tz))"
  using assms
  by (simp add: playerMoved_legacy_def Let_def LARGE_MOVEMENT_THRESHOLD_def position_set_def)

text \<open>
  Claim C6 at a failing input: the registry is empty, the event names the unknown id
  "abcdef" at x = 100, and the server answers the lookup with null.  The placeholder is
  registered at the raw x = 100, outside the world bounds: the clamp of the known-entity
  branch is missing on this path.
\<close>

theorem C6_placeholder_outside_bounds:
  "playersRef (playerMoved_resolved (Some ''me'') (\<lambda>i. None)
       \<lparr>ev_id = ''abcdef'', ev_x = 100, ev_y = 1, ev_z = 0\<rparr> initial_client) ''abcdef''
     = Some \<lparr>position = \<lparr>vx = 100, vy = 1, vz = 0\<rparr>, rotation_y = 0,
             userData_playerId = Some ''abcdef'', userData_playerName = Some ''Player-abcd''\<rparr>
   \<and> \<not> in_bounds WORLD_BOUNDS 100 0"
  by (simp add: playerMoved_resolved_def playerMoved_def playerMoved_reply_def
      createPlayerMesh_def is_own_player_def initial_client_def in_bounds_def WORLD_BOUNDS_def)

text \<open>On the known-entity branch the bounds are kept: an entity inside stays inside.\<close>

lemma playerMoved_known_in_bounds:
  assumes "playersRef st (ev_id d) = Some m"
    and "in_bounds WORLD_BOUNDS (vx (position m)) (vz (position m))"
    and "playersRef (fst (playerMoved sid d st)) (ev_id d) = Some m'"
  shows "in_bounds WORLD_BOUNDS (vx (position m')) (vz (position m'))"
proof (cases "is_own_player sid (ev_id d)")
  case True
  with assms show ?thesis by (simp add: playerMoved_def)
next
  case False
  have b: "in_bounds WORLD_BOUNDS (clampX WORLD_BOUNDS (ev_x d)) (clampZ WORLD_BOUNDS (ev_z d))"
    by (rule in_bounds_clamp)
  from False assms b show ?thesis
    using midpoint_between [of "minX WORLD_BOUNDS" "vx (position m)" "maxX WORLD_BOUNDS"
        "clampX WORLD_BOUNDS (ev_x d)"]
      midpoint_between [of "minZ WORLD_BOUNDS" "vz (position m)" "maxZ WORLD_BOUNDS"
        "clampZ WORLD_BOUNDS (ev_z d)"]
    by (auto simp add: playerMoved_def Let_def position_set_def in_bounds_def split: if_splits)
qed

text \<open>
  Claim C7, as stated, fails for the client's own id: it is absent from the registry,
  yet the handler returns at its own-id guard, asks the server nothing and registers
  nothing.
\<close>

theorem C7_unknown_move_counterexample:
  "playersRef initial_client ''me'' = None
   \<and> playerMoved (Some ''me'') \<lparr>ev_id = ''me'', ev_x = 3, ev_y = 1, ev_z = 4\<rparr> initial_client
       = (initial_client, None)"
  by (simp add: playerMoved_def is_own_player_def initial_client_def)

text \<open>
  Claim C7, amended: for a move event whose id is absent from the registry and is not
  taken for the local player (neither the socket id nor "TEST-" followed by it), the
  handler emits \<^verbatim>\<open>getPlayerData\<close> for that id; and when the answer is null, the callback
  registers under that id a placeholder named "Player-" plus the first four characters
  of the id, at the position the event supplied (whatever the state \<open>st'\<close> the answer
  finds).
\<close>

theorem C7_unknown_move:
  assumes "\<not> is_own_player sid (ev_id d)" and "playersRef st (ev_id d) = None"
  shows "playerMoved sid d st = (st, Some (GetPlayerData (ev_id d)))
     \<and> playersRef (playerMoved_reply sid d None st') (ev_id d)
         = Some \<lparr>position = \<lparr>vx = ev_x d, vy = ev_y d, vz = ev_z d\<rparr>, rotation_y = 0,
                 userData_playerId = Some (ev_id d),
                 userData_playerName = Some (''Player-'' @ take 4 (ev_id d))\<rparr>"
  using assms
  by (simp add: playerMoved_def playerMoved_reply_def createPlayerMesh_def is_own_player_def)

theorem C7_unknown_move_witness:
  "playerMoved (Some ''me'') \<lparr>ev_id = ''abcdef'', ev_x = 3, ev_y = 1, ev_z = 4\<rparr> initial_client
     = (initial_client, Some (GetPlayerData ''abcdef''))
   \<and> playersRef (playerMoved_reply (Some ''me'')
        \<lparr>ev_id = ''abcdef'', ev_x = 3, ev_y = 1, ev_z = 4\<rparr> None initial_client) ''abcdef''
       = Some \<lparr>position = \<lparr>vx = 3, vy = 1, vz = 4\<rparr>, rotation_y = 0,
               userData_playerId = Some ''abcdef'',
               userData_playerName = Some ''Player-abcd''\<rparr>"
  using C7_unknown_move [of "Some ''me''" "\<lparr>ev_id = ''abcdef'', ev_x = 3, ev_y = 1, ev_z = 4\<rparr>"
      initial_client initial_client]
  by (simp add: is_own_player_def initial_client_def)

section \<open>Outbound position reports: results\<close>

text \<open>What one send attempt does to the clock of the throttle, and when it emits.\<close>

lemma send_None_time:
  "sendPositionUpdate env st = (st', None) \<Longrightarrow> lastSendTime st' = lastSendTime st"
  by (auto simp add: sendPositionUpdate_def Let_def split: option.splits if_splits)

lemma send_Some_time:
  "sendPositionUpdate env st = (st', Some r) \<Longrightarrow>
     lastSendTime st' = now env \<and> lastSendTime st + SEND_INTERVAL \<le> now env"
  by (auto simp add: sendPositionUpdate_def Let_def split: option.splits if_splits)

lemma send_Some_gates:
  "sendPositionUpdate env st = (st', Some r) \<Longrightarrow>
     \<exists>player. playerRef st = Some player
       \<and> now env - lastSendTime st \<ge> SEND_INTERVAL
       \<and> (\<bar>vx (position player) - vx (lastSentPosition st)\<bar> > 1 / 100
          \<or> \<bar>vz (position player) - vz (lastSentPosition st)\<bar> > 1 / 100)
       \<and> r = \<lparr>vx = clampX WORLD_BOUNDS (vx (position player)), vy = vy (position player),
               vz = clampZ WORLD_BOUNDS (vz (position player))\<rparr>"
  by (auto simp add: sendPositionUpdate_def Let_def split: option.splits if_splits)

text \<open>
  Along any history every report comes at least \<open>SEND_INTERVAL\<close> after the report before it
  (and after the last send time of the starting state).
\<close>

lemma reports_spaced:
  "sorted_wrt (\<lambda>a b. fst a + SEND_INTERVAL \<le> fst b) (reports st evs)
   \<and> (\<forall>r \<in> set (reports st evs). lastSendTime st + SEND_INTERVAL \<le> fst r)"
proof (induction evs arbitrary: st)
  case Nil
  show ?case by simp
next
  case (Cons e evs)
  show ?case
  proof (cases e)
    case (Mutation p)
    then show ?thesis using Cons.IH [of "st\<lparr>playerRef := map_option (\<lambda>m. m\<lparr>position := p\<rparr>) (playerRef st),
                 movementChanged := True\<rparr>"] by simp
  next
    case (Connection b)
    then show ?thesis using Cons.IH [of "st\<lparr>isConnected := b\<rparr>"] by simp
  next
    case (SendAttempt env)
    obtain st' out where s: "sendPositionUpdate env st = (st', out)"
      by (cases "sendPositionUpdate env st")
    show ?thesis
    proof (cases out)
      case None
      with s have "lastSendTime st' = lastSendTime st" by (simp add: send_None_time)
      with Cons.IH [of st'] s None SendAttempt show ?thesis by simp
    next
      case (Some r)
      with s have t: "lastSendTime st' = now env" "lastSendTime st + SEND_INTERVAL \<le> now env"
        using send_Some_time by blast+
      have "0 \<le> SEND_INTERVAL" by (simp add: SEND_INTERVAL_def)
      with Cons.IH [of st'] s Some SendAttempt t show ?thesis by fastforce
    qed
  qed
qed

lemma spaced_window:
  "sorted_wrt (\<lambda>a b. fst a + SEND_INTERVAL \<le> fst b) (xs :: (real \<times> vec3) list)
   \<Longrightarrow> length (filter (\<lambda>r. t \<le> fst r \<and> fst r < t + SEND_INTERVAL) xs) \<le> 1"
proof (induction xs)
  case Nil
  show ?case by simp
next
  case (Cons x xs)
  show ?case
  proof (cases "t \<le> fst x \<and> fst x < t + SEND_INTERVAL")
    case True
    have "filter (\<lambda>r. t \<le> fst r \<and> fst r < t + SEND_INTERVAL) xs = []"
      using Cons.prems True by (fastforce simp add: filter_empty_conv)
    with True show ?thesis by simp
  next
    case False
    then have "filter (\<lambda>r. t \<le> fst r \<and> fst r < t + SEND_INTERVAL) (x # xs)
        = filter (\<lambda>r. t \<le> fst r \<and> fst r < t + SEND_INTERVAL) xs"
      by auto
    moreover have "sorted_wrt (\<lambda>a b. fst a + SEND_INTERVAL \<le> fst b) xs"
      using Cons.prems by simp
    ultimately show ?thesis using Cons.IH by simp
  qed
qed

text \<open>
  Claim C4: for every history of local mutations, connection changes and send attempts,
  every window [t, t + 100) of the clock holds at most one emitted report; and an attempt
  that emits a report has passed both the time gate (now - lastSendTime \<ge> 100) and the
  delta gate (|dx| > 0.01 or |dz| > 0.01 against lastSentPosition), the report being the
  local position clamped to the world bounds.
\<close>

theorem C4_throttle:
  "length (filter (\<lambda>r. t \<le> fst r \<and> fst r < t + SEND_INTERVAL) (reports st evs)) \<le> 1
   \<and> (sendPositionUpdate env st = (st', Some r) \<longrightarrow>
        (\<exists>player. playerRef st = Some player
           \<and> now env - lastSendTime st \<ge> 100
           \<and> (\<bar>vx (position player) - vx (lastSentPosition st)\<bar> > 0.01
              \<or> \<bar>vz (position player) - vz (lastSentPosition st)\<bar> > 0.01)
           \<and> r = \<lparr>vx = clampX WORLD_BOUNDS (vx (position player)), vy = vy (position player),
                   vz = clampZ WORLD_BOUNDS (vz (position player))\<rparr>
           \<and> in_bounds WORLD_BOUNDS (vx r) (vz r)))"
proof
  show "length (filter (\<lambda>r. t \<le> fst r \<and> fst r < t + SEND_INTERVAL) (reports st evs)) \<le> 1"
    using reports_spaced [of st evs] spaced_window by blast
next
  show "sendPositionUpdate env st = (st', Some r) \<longrightarrow>
        (\<exists>player. playerRef st = Some player
           \<and> now env - lastSendTime st \<ge> 100
           \<and> (\<bar>vx (position player) - vx (lastSentPosition st)\<bar> > 0.01
              \<or> \<bar>vz (position player) - vz (lastSentPosition st)\<bar> > 0.01)
           \<and> r = \<lparr>vx = clampX WORLD_BOUNDS (vx (position player)), vy = vy (position player),
                   vz = clampZ WORLD_BOUNDS (vz (position player))\<rparr>
           \<and> in_bounds WORLD_BOUNDS (vx r) (vz r))"
  proof
    assume "sendPositionUpdate env st = (st', Some r)"
    from send_Some_gates [OF this] show "\<exists>player. playerRef st = Some player
           \<and> now env - lastSendTime st \<ge> 100
           \<and> (\<bar>vx (position player) - vx (lastSentPosition st)\<bar> > 0.01
              \<or> \<bar>vz (position player) - vz (lastSentPosition st)\<bar> > 0.01)
           \<and> r = \<lparr>vx = clampX WORLD_BOUNDS (vx (position player)), vy = vy (position player),
                   vz = clampZ WORLD_BOUNDS (vz (position player))\<rparr>
           \<and> in_bounds WORLD_BOUNDS (vx r) (vz r)"
      using in_bounds_clamp by (auto simp add: SEND_INTERVAL_def)
  qed
qed

text \<open>
  Three attempts within 100 ms, with a mutation before each of the last two: only the
  first emits, and it sends x = 60 clamped to 50.
\<close>

theorem C4_throttle_witness:
  "reports (moving_client 60 2)
      [SendAttempt (attempt_at 1100), Mutation \<lparr>vx = 3, vy = 1, vz = 3\<rparr>,
       SendAttempt (attempt_at 1150), Mutation \<lparr>vx = 4, vy = 1, vz = 4\<rparr>,
       SendAttempt (attempt_at 1199)]
     = [(1100, \<lparr>vx = 50, vy = 1, vz = 2\<rparr>)]
   \<and> snd (sendPositionUpdate (attempt_at 1100) (moving_client 60 2))
       = Some \<lparr>vx = 50, vy = 1, vz = 2\<rparr>
   \<and> in_bounds WORLD_BOUNDS 50 2"
  using C4_throttle [of 1100 "moving_client 60 2"
      "[SendAttempt (attempt_at 1100), Mutation \<lparr>vx = 3, vy = 1, vz = 3\<rparr>,
       SendAttempt (attempt_at 1150), Mutation \<lparr>vx = 4, vy = 1, vz = 4\<rparr>,
       SendAttempt (attempt_at 1199)]" "attempt_at 1100" "fst (sendPositionUpdate (attempt_at 1100) (moving_client 60 2))"
      "\<lparr>vx = 50, vy = 1, vz = 2\<rparr>"]
  by (simp add: sendPositionUpdate_def moving_client_def attempt_at_def initial_client_def
      Let_def SEND_INTERVAL_def clampX_def clampZ_def WORLD_BOUNDS_def in_bounds_def)

text \<open>
  Claim C9, as stated, fails at the minimum-delta gate.  At clock reading 1100, 100 ms
  after the last report, the time gate is open, but the player still stands on the last
  sent position: no report is emitted, and the "changed" flag, raised before, is cleared.
\<close>

theorem C9_flag_counterexample:
  "movementChanged (moving_client 0 0)
   \<and> snd (sendPositionUpdate (attempt_at 1100) (moving_client 0 0)) = None
   \<and> \<not> movementChanged (fst (sendPositionUpdate (attempt_at 1100) (moving_client 0 0)))"
  by (simp add: sendPositionUpdate_def moving_client_def attempt_at_def initial_client_def
      Let_def SEND_INTERVAL_def)

text \<open>
  Claim C9, amended: a send attempt that emits a report leaves the "changed" flag clear.
  An attempt that gets past the connectivity guards with the flag raised and the time gate
  open, but is blocked by the minimum-delta gate, emits nothing and clears the flag as
  well.  An attempt stopped at a connectivity guard (no local player, not connected,
  socket not ready) changes nothing, so the flag stays as it was.
\<close>

theorem C9_flag:
  "(snd (sendPositionUpdate env st) \<noteq> None
      \<longrightarrow> \<not> movementChanged (fst (sendPositionUpdate env st)))
   \<and> (playerRef st = Some player \<and> isConnected st \<and> isSocketReady env \<and> movementChanged st
       \<and> now env - lastSendTime st \<ge> SEND_INTERVAL
       \<and> \<bar>vx (position player) - vx (lastSentPosition st)\<bar> \<le> 1 / 100
       \<and> \<bar>vz (position player) - vz (lastSentPosition st)\<bar> \<le> 1 / 100
      \<longrightarrow> sendPositionUpdate env st = (st\<lparr>movementChanged := False\<rparr>, None))
   \<and> (playerRef st = None \<or> \<not> isConnected st \<or> \<not> isSocketReady env
      \<longrightarrow> sendPositionUpdate env st = (st, None))"
  by (auto simp add: sendPositionUpdate_def Let_def split: option.splits if_splits)

theorem C9_flag_witness:
  "snd (sendPositionUpdate (attempt_at 1100) (moving_client 3 4)) = Some \<lparr>vx = 3, vy = 1, vz = 4\<rparr>
   \<and> \<not> movementChanged (fst (sendPositionUpdate (attempt_at 1100) (moving_client 3 4)))
   \<and> sendPositionUpdate (attempt_at 1100) (moving_client 0 0)
       = ((moving_client 0 0)\<lparr>movementChanged := False\<rparr>, None)
   \<and> sendPositionUpdate (attempt_at 1100) ((moving_client 3 4)\<lparr>isConnected := False\<rparr>)
       = ((moving_client 3 4)\<lparr>isConnected := False\<rparr>, None)
   \<and> movementChanged ((moving_client 3 4)\<lparr>isConnected := False\<rparr>)"
  using C9_flag [of "attempt_at 1100" "moving_client 3 4"]
    C9_flag [of "attempt_at 1100" "moving_client 0 0"
      "\<lparr>position = \<lparr>vx = 0, vy = 1, vz = 0\<rparr>, rotation_y = 0,
        userData_playerId = None, userData_playerName = None\<rparr>"]
    C9_flag [of "attempt_at 1100" "(moving_client 3 4)\<lparr>isConnected := False\<rparr>"]
  by (simp add: sendPositionUpdate_def moving_client_def attempt_at_def initial_client_def
      Let_def SEND_INTERVAL_def clampX_def clampZ_def WORLD_BOUNDS_def)

text \<open>
  When the time gate blocks the report the two components differ.  Here the reset is the
  last statement of the function: every attempt that gets past the connectivity guards
  leaves the flag clear.
\<close>

lemma sendPositionUpdate_clears_flag:
  "playerRef st \<noteq> None \<Longrightarrow> isConnected st \<Longrightarrow> isSocketReady env
     \<Longrightarrow> \<not> movementChanged (fst (sendPositionUpdate env st))"
  by (auto simp add: sendPositionUpdate_def Let_def split: option.splits if_splits)

text \<open>
  In the older component the reset sits inside the time gate: a raised flag survives an
  attempt exactly when the time gate blocks it.
\<close>

lemma sendPositionUpdate_legacy_flag:
  "playerRef st \<noteq> None \<Longrightarrow> isConnected st \<Longrightarrow> movementChanged st \<Longrightarrow>
     movementChanged (fst (sendPositionUpdate_legacy t st)) \<longleftrightarrow> \<not> (t - lastSendTime st \<ge> SEND_INTERVAL)"
  by (auto simp add: sendPositionUpdate_legacy_def Let_def split: option.splits if_splits)

text \<open>The amended statement of C9 holds for the older component as well.\<close>

lemma sendPositionUpdate_legacy_delta_blocked:
  "playerRef st = Some player \<Longrightarrow> isConnected st \<Longrightarrow> movementChanged st
     \<Longrightarrow> t - lastSendTime st \<ge> SEND_INTERVAL
     \<Longrightarrow> \<bar>vx (position player) - vx (lastSentPosition st)\<bar> \<le> 1 / 100
     \<Longrightarrow> \<bar>vz (position player) - vz (lastSentPosition st)\<bar> \<le> 1 / 100
     \<Longrightarrow> sendPositionUpdate_legacy t st = (st\<lparr>movementChanged := False\<rparr>, None)"
  by (simp add: sendPositionUpdate_legacy_def Let_def)

lemma sendPositionUpdate_legacy_emits_clear:
  "snd (sendPositionUpdate_legacy t st) \<noteq> None
     \<Longrightarrow> \<not> movementChanged (fst (sendPositionUpdate_legacy t st))"
  by (auto simp add: sendPositionUpdate_legacy_def Let_def split: option.splits if_splits)

section \<open>Anomaly guard: results\<close>

text \<open>Clamping does not move a point away from a point inside the bounds.\<close>

lemma clampX_nonexpansive:
  "minX b \<le> p \<Longrightarrow> p \<le> maxX b \<Longrightarrow> \<bar>clampX b c - p\<bar> \<le> \<bar>c - p\<bar>"
  by (auto simp add: clampX_def max_def min_def)

lemma clampZ_nonexpansive:
  "minZ b \<le> p \<Longrightarrow> p \<le> maxZ b \<Longrightarrow> \<bar>clampZ b c - p\<bar> \<le> \<bar>c - p\<bar>"
  by (auto simp add: clampZ_def max_def min_def)

text \<open>The corrected sample is within the allowed distance of the previous one.\<close>

lemma capped_distance:
  fixes a c d k :: real
  assumes d: "d = sqrt (a\<^sup>2 + c\<^sup>2)" and pos: "0 < d" and k: "0 \<le> k"
    and x: "\<bar>u\<bar> \<le> \<bar>a / d * k\<bar>" and z: "\<bar>w\<bar> \<le> \<bar>c / d * k\<bar>"
  shows "sqrt (u\<^sup>2 + w\<^sup>2) \<le> k"
proof -
  have d2: "d\<^sup>2 = a\<^sup>2 + c\<^sup>2"
    using d by simp
  have "u\<^sup>2 \<le> (a / d * k)\<^sup>2" using x by (simp only: abs_le_square_iff)
  moreover have "w\<^sup>2 \<le> (c / d * k)\<^sup>2" using z by (simp only: abs_le_square_iff)
  ultimately have "u\<^sup>2 + w\<^sup>2 \<le> (a / d * k)\<^sup>2 + (c / d * k)\<^sup>2" by simp
  also have "\<dots> = (a\<^sup>2 + c\<^sup>2) / d\<^sup>2 * k\<^sup>2"
    by (simp add: power_mult_distrib power_divide add_divide_distrib ring_distribs)
  also have "\<dots> = k\<^sup>2"
  proof -
    have "d\<^sup>2 \<noteq> 0" using pos by simp
    then show ?thesis by (simp add: d2 [symmetric])
  qed
  finally have "sqrt (u\<^sup>2 + w\<^sup>2) \<le> sqrt (k\<^sup>2)"
    by (rule real_sqrt_le_mono)
  with k show ?thesis by simp
qed

text \<open>
  In exact arithmetic (\<open>fl\<close> the identity) the guard is idempotent; the section on doubles
  at the end shows that rounding breaks this.  Take any state on which the guard has run
  (\<open>st'\<close> is what the run returned), the sample before the latest lying inside the world
  bounds, as every sample the mover pushes and every sample the guard writes does.  Running
  the guard on \<open>st'\<close> returns \<open>st'\<close> itself.
\<close>

lemma guard_idempotent_exact:
  assumes run: "detectAnomalousMovement (\<lambda>v. v) st = Inr st'"
    and prev: "in_bounds WORLD_BOUNDS
                 (s_x (positionHistory st ! (length (positionHistory st) - 2)))
                 (s_z (positionHistory st ! (length (positionHistory st) - 2)))"
  shows "detectAnomalousMovement (\<lambda>v. v) st' = Inr st'"
proof -
  define h where "h = positionHistory st"
  define n where "n = length h"
  define L where "L = h ! (n - 1)"
  define P where "P = h ! (n - 2)"
  define d where "d = sqrt ((s_x L - s_x P)\<^sup>2 + (s_z L - s_z P)\<^sup>2)"
  define td where "td = (s_time L - s_time P) / 1000"
  define bx where "bx = clampX WORLD_BOUNDS (s_x P + (s_x L - s_x P) / d * (MOVEMENT_SPEED * 2))"
  define bz where "bz = clampZ WORLD_BOUNDS (s_z P + (s_z L - s_z P) / d * (MOVEMENT_SPEED * 2))"
  have n2: "2 \<le> n"
    using run unfolding n_def h_def
    by (auto simp add: detectAnomalousMovement_def Let_def split: if_splits)
  show ?thesis
  proof (cases "0 < td \<and> playerRef st \<noteq> None \<and> ANOMALOUS_SPEED_THRESHOLD < d / td
                \<and> MOVEMENT_SPEED * 2 < d")
    case False
    then have "detectAnomalousMovement (\<lambda>v. v) st = Inr st"
      using n2 unfolding n_def h_def L_def P_def d_def td_def
      by (auto simp add: detectAnomalousMovement_def Let_def split: option.splits)
    with run have "st' = st" by simp
    with run show ?thesis by simp
  next
    case True
    then obtain player where pl: "playerRef st = Some player" by auto
    have st': "st' = st\<lparr>playerRef := Some (player\<lparr>position := (position player)\<lparr>vx := bx, vz := bz\<rparr>\<rparr>),
                       positionHistory := h[n - 1 := \<lparr>s_x = bx, s_z = bz, s_time = s_time L\<rparr>]\<rparr>"
      using run True n2 pl unfolding n_def h_def L_def P_def d_def td_def bx_def bz_def
      by (simp add: detectAnomalousMovement_def Let_def)
    have dpos: "0 < d" using True by (simp add: MOVEMENT_SPEED_def)
    have Pin: "minX WORLD_BOUNDS \<le> s_x P" "s_x P \<le> maxX WORLD_BOUNDS"
        "minZ WORLD_BOUNDS \<le> s_z P" "s_z P \<le> maxZ WORLD_BOUNDS"
      using prev unfolding P_def n_def h_def in_bounds_def by simp_all
    have x: "\<bar>bx - s_x P\<bar> \<le> \<bar>(s_x L - s_x P) / d * (MOVEMENT_SPEED * 2)\<bar>"
      using clampX_nonexpansive [OF Pin(1,2), of "s_x P + (s_x L - s_x P) / d * (MOVEMENT_SPEED * 2)"]
      unfolding bx_def by simp
    have z: "\<bar>bz - s_z P\<bar> \<le> \<bar>(s_z L - s_z P) / d * (MOVEMENT_SPEED * 2)\<bar>"
      using clampZ_nonexpansive [OF Pin(3,4), of "s_z P + (s_z L - s_z P) / d * (MOVEMENT_SPEED * 2)"]
      unfolding bz_def by simp
    have close: "sqrt ((bx - s_x P)\<^sup>2 + (bz - s_z P)\<^sup>2) \<le> MOVEMENT_SPEED * 2"
      by (rule capped_distance [OF d_def dpos _ x z]) (simp add: MOVEMENT_SPEED_def)
    have len: "length (positionHistory st') = n"
      unfolding st' n_def by simp
    have last': "positionHistory st' ! (n - Suc 0) = \<lparr>s_x = bx, s_z = bz, s_time = s_time L\<rparr>"
      unfolding st' using n2 by (simp add: n_def)
    have prev': "positionHistory st' ! (n - 2) = P"
      unfolding st' P_def using n2 by simp
    show ?thesis
      using n2 close
      by (simp add: detectAnomalousMovement_def Let_def len last' prev' split: option.splits)
  qed
qed

text \<open>What a run of the guard can do to the state.\<close>

lemma detect_result:
  assumes "detectAnomalousMovement fl st = Inr st'"
  shows "st' = st
    \<or> (\<exists>player a c tm. playerRef st = Some player
         \<and> st' = st\<lparr>playerRef := Some (player\<lparr>position := (position player)
                         \<lparr>vx := clampX WORLD_BOUNDS a, vz := clampZ WORLD_BOUNDS c\<rparr>\<rparr>),
                     positionHistory := (positionHistory st)[length (positionHistory st) - 1 :=
                         \<lparr>s_x = clampX WORLD_BOUNDS a, s_z = clampZ WORLD_BOUNDS c, s_time = tm\<rparr>]\<rparr>)"
proof (cases "playerRef st")
  case None
  with assms show ?thesis
    by (simp add: detectAnomalousMovement_def Let_def split: if_splits)
next
  case (Some player)
  with assms show ?thesis
    unfolding detectAnomalousMovement_def Let_def
    by (simp split: if_splits) blast+
qed

lemma sample_in_bounds_clamp:
  "sample_in_bounds \<lparr>s_x = clampX WORLD_BOUNDS a, s_z = clampZ WORLD_BOUNDS c, s_time = t\<rparr>"
  using in_bounds_clamp [of a c] by (simp add: sample_in_bounds_def)

lemma list_all_update:
  "list_all P xs \<Longrightarrow> P x \<Longrightarrow> list_all P (xs[i := x])"
  using set_update_subset_insert [of xs i x] by (auto simp add: list_all_iff)

lemma detect_keeps_history:
  assumes "list_all sample_in_bounds (positionHistory st)"
    and "detectAnomalousMovement fl st = Inr st'"
  shows "list_all sample_in_bounds (positionHistory st')"
  using detect_result [OF assms(2)] assms(1)
  by (auto simp add: list_all_update sample_in_bounds_clamp)

lemma detect_keeps_player:
  assumes "player_in_bounds WORLD_BOUNDS (playerRef st)"
    and "detectAnomalousMovement fl st = Inr st'"
  shows "player_in_bounds WORLD_BOUNDS (playerRef st')"
  using detect_result [OF assms(2)] assms(1) in_bounds_clamp
  by (auto simp add: player_in_bounds_def)

text \<open>
  The mover of the older component: it never throws, and it keeps the local player and
  every history sample inside the world bounds.
\<close>

lemma legacy_unfold:
  assumes "playerRef st = Some player"
  shows "updatePlayerMovement_legacy fl k delta t st = Inr st
    \<or> (\<exists>newX newZ.
          let pushed = positionHistory st @
                [\<lparr>s_x = clampX WORLD_BOUNDS newX, s_z = clampZ WORLD_BOUNDS newZ, s_time = t\<rparr>];
              history = (if length pushed > MAX_HISTORY_LENGTH then tl pushed else pushed);
              st1 = st\<lparr>playerRef := Some (player\<lparr>position := (position player)
                           \<lparr>vx := clampX WORLD_BOUNDS newX, vz := clampZ WORLD_BOUNDS newZ\<rparr>\<rparr>),
                       movementChanged := True,
                       currentZone := updatePlayerZone (clampX WORLD_BOUNDS newX)
                                        (clampZ WORLD_BOUNDS newZ) (currentZone st),
                       positionHistory := history\<rparr>
          in updatePlayerMovement_legacy fl k delta t st
               = (if length history \<ge> 2 then detectAnomalousMovement fl st1 else Inr st1))"
  using assms
  by (auto simp add: updatePlayerMovement_legacy_def Let_def)

lemma detect_total:
  "2 \<le> length (positionHistory s) \<Longrightarrow> \<exists>st'. detectAnomalousMovement fl s = Inr st'"
  by (simp add: detectAnomalousMovement_def Let_def split: option.splits)

lemma legacy_total: "\<exists>st'. updatePlayerMovement_legacy fl k delta t st = Inr st'"
proof (cases "playerRef st")
  case None
  then show ?thesis by (simp add: updatePlayerMovement_legacy_def)
next
  case (Some player)
  from legacy_unfold [OF Some, of fl k delta t] show ?thesis
    by (auto simp add: Let_def detect_total split: if_splits)
qed

lemma legacy_keeps_bounds:
  assumes "updatePlayerMovement_legacy fl k delta t st = Inr st'"
    and "player_in_bounds WORLD_BOUNDS (playerRef st)"
    and "list_all sample_in_bounds (positionHistory st)"
  shows "player_in_bounds WORLD_BOUNDS (playerRef st') \<and> list_all sample_in_bounds (positionHistory st')"
proof (cases "playerRef st")
  case None
  with assms show ?thesis by (simp add: updatePlayerMovement_legacy_def)
next
  case (Some player)
  from legacy_unfold [OF Some, of fl k delta t]
  show ?thesis
  proof
    assume "updatePlayerMovement_legacy fl k delta t st = Inr st"
    with assms show ?thesis by simp
  next
    assume "\<exists>newX newZ.
          let pushed = positionHistory st @
                [\<lparr>s_x = clampX WORLD_BOUNDS newX, s_z = clampZ WORLD_BOUNDS newZ, s_time = t\<rparr>];
              history = (if length pushed > MAX_HISTORY_LENGTH then tl pushed else pushed);
              st1 = st\<lparr>playerRef := Some (player\<lparr>position := (position player)
                           \<lparr>vx := clampX WORLD_BOUNDS newX, vz := clampZ WORLD_BOUNDS newZ\<rparr>\<rparr>),
                       movementChanged := True,
                       currentZone := updatePlayerZone (clampX WORLD_BOUNDS newX)
                                        (clampZ WORLD_BOUNDS newZ) (currentZone st),
                       positionHistory := history\<rparr>
          in updatePlayerMovement_legacy fl k delta t st
               = (if length history \<ge> 2 then detectAnomalousMovement fl st1 else Inr st1)"
    then obtain newX newZ pushed history st1
      where pushed: "pushed = positionHistory st @
                [\<lparr>s_x = clampX WORLD_BOUNDS newX, s_z = clampZ WORLD_BOUNDS newZ, s_time = t\<rparr>]"
        and history: "history = (if length pushed > MAX_HISTORY_LENGTH then tl pushed else pushed)"
        and st1: "st1 = st\<lparr>playerRef := Some (player\<lparr>position := (position player)
                           \<lparr>vx := clampX WORLD_BOUNDS newX, vz := clampZ WORLD_BOUNDS newZ\<rparr>\<rparr>),
                       movementChanged := True,
                       currentZone := updatePlayerZone (clampX WORLD_BOUNDS newX)
                                        (clampZ WORLD_BOUNDS newZ) (currentZone st),
                       positionHistory := history\<rparr>"
        and run: "updatePlayerMovement_legacy fl k delta t st
               = (if length history \<ge> 2 then detectAnomalousMovement fl st1 else Inr st1)"
      unfolding Let_def by blast
    have inb: "in_bounds WORLD_BOUNDS (clampX WORLD_BOUNDS newX) (clampZ WORLD_BOUNDS newZ)"
      by (rule in_bounds_clamp)
    have "list_all sample_in_bounds pushed"
      using assms(3) inb by (simp add: pushed sample_in_bounds_def)
    then have h: "list_all sample_in_bounds history"
      unfolding history by (cases pushed) auto
    have p1: "player_in_bounds WORLD_BOUNDS (playerRef st1)"
      using inb by (simp add: st1 player_in_bounds_def)
    have h1: "list_all sample_in_bounds (positionHistory st1)"
      using h by (simp add: st1)
    from run assms(1) have "st' = st1 \<or> detectAnomalousMovement fl st1 = Inr st'"
      by (auto split: if_splits)
    then show ?thesis
      using p1 h1 detect_keeps_history [of st1 fl st'] detect_keeps_player [of st1 fl st']
      by auto
  qed
qed

section \<open>Local movement: results\<close>

text \<open>With the camera at angle 0 the key "s" moves the player by 0.15 along z in every tick.\<close>

lemma step_s: "movement_step (no_keys\<lparr>key_s := True\<rparr>) 0 = \<lparr>vx = 0, vy = 0, vz = 15 / 100\<rparr>"
  by (simp add: movement_step_def movement_sum_def no_keys_def v_add_def v_sub_def v_length_def
      normalize_def divideScalar_def multiplyScalar_def MOVEMENT_SPEED_def Let_def)

lemma update_xz:
  "local_xz (playerRef (updatePlayerMovement k a t st))
     = map_option (\<lambda>(x, z). (x + vx (movement_step k a), z + vz (movement_step k a)))
         (local_xz (playerRef st))"
  by (simp add: updatePlayerMovement_def local_xz_def Let_def split: option.splits)

lemma ticks_s:
  "local_xz (playerRef (ticks (replicate n (no_keys\<lparr>key_s := True\<rparr>, 0, t)) st))
     = map_option (\<lambda>(x, z). (x, z + real n * (15 / 100))) (local_xz (playerRef st))"
proof (induction n arbitrary: st)
  case 0
  show ?case by (simp add: option.map_ident case_prod_unfold)
next
  case (Suc n)
  have one: "local_xz (playerRef (updatePlayerMovement (no_keys\<lparr>key_s := True\<rparr>) 0 t st))
      = map_option (\<lambda>(x, z). (x, z + 15 / 100)) (local_xz (playerRef st))"
    by (simp add: update_xz step_s)
  show ?case
  proof (cases "local_xz (playerRef st)")
    case None
    with one Suc.IH [of "updatePlayerMovement (no_keys\<lparr>key_s := True\<rparr>) 0 t st"]
    show ?thesis by simp
  next
    case (Some p)
    with one Suc.IH [of "updatePlayerMovement (no_keys\<lparr>key_s := True\<rparr>) 0 t st"]
    show ?thesis by (cases p) (simp add: algebra_simps)
  qed
qed

text \<open>
  Claim C1 at a failing input: the mover of \<^verbatim>\<open>src/frontend/components/GameCanvas.tsx\<close>
  starts from the spawn position (0, 1, 0), inside the world bounds; after 334 ticks with
  "s" held and the camera at angle 0 the player stands at z = 50.1, outside them.
\<close>

theorem C1_frontend_leaves_bounds:
  "player_in_bounds WORLD_BOUNDS (playerRef initial_client)
   \<and> local_xz (playerRef (ticks (replicate 334 (no_keys\<lparr>key_s := True\<rparr>, 0, 0)) initial_client))
       = Some (0, 501 / 10)
   \<and> \<not> player_in_bounds WORLD_BOUNDS
        (playerRef (ticks (replicate 334 (no_keys\<lparr>key_s := True\<rparr>, 0, 0)) initial_client))"
proof -
  have xz: "local_xz (playerRef (ticks (replicate 334 (no_keys\<lparr>key_s := True\<rparr>, 0, 0)) initial_client))
       = Some (0, 501 / 10)"
    unfolding ticks_s by (simp add: local_xz_def initial_client_def)
  then have "\<not> player_in_bounds WORLD_BOUNDS
        (playerRef (ticks (replicate 334 (no_keys\<lparr>key_s := True\<rparr>, 0, 0)) initial_client))"
    by (auto simp add: local_xz_def player_in_bounds_def in_bounds_def WORLD_BOUNDS_def
        split: option.splits)
  moreover have "player_in_bounds WORLD_BOUNDS (playerRef initial_client)"
    by (simp add: player_in_bounds_def initial_client_def in_bounds_def WORLD_BOUNDS_def)
  ultimately show ?thesis using xz by simp
qed

text \<open>
  The hook and the older component do clamp: whatever the input, a player inside the
  bounds stays inside (for the older component see \<open>legacy_keeps_bounds\<close>).
\<close>

lemma hook_keeps_bounds:
  assumes "minX (c_WORLD_BOUNDS c) \<le> maxX (c_WORLD_BOUNDS c)"
    and "minZ (c_WORLD_BOUNDS c) \<le> maxZ (c_WORLD_BOUNDS c)"
    and "player_in_bounds (c_WORLD_BOUNDS c) (h_playerRef st)"
  shows "player_in_bounds (c_WORLD_BOUNDS c)
           (h_playerRef (fst (updatePlayerMovement_hook c i a st)))"
proof (cases "h_playerRef st")
  case None
  then show ?thesis by (simp add: updatePlayerMovement_hook_def player_in_bounds_def)
next
  case (Some m)
  obtain moveX moveZ where mv: "hook_move c i a = (moveX, moveZ)" by (cases "hook_move c i a")
  from Some assms(3) have inb: "in_bounds (c_WORLD_BOUNDS c) (vx (position m)) (vz (position m))"
    by (simp add: player_in_bounds_def)
  show ?thesis
    using Some mv inb clampX_in [OF assms(1)] clampZ_in [OF assms(2)]
    by (simp add: updatePlayerMovement_hook_def player_in_bounds_def in_bounds_def Let_def)
qed

text \<open>
  Claim C8 at a failing input: the hook \<^verbatim>\<open>usePlayerMovement\<close> adds the forward and the
  right vector without normalising the sum.  With "forward" and "right" active at camera
  angle 0 the player moves from (0, 0) to (0.15, -0.15) in one tick, a displacement larger
  than the single-axis speed 0.15.
\<close>

theorem C8_hook_diagonal_exceeds_speed:
  "local_xz (h_playerRef hook_initial) = Some (0, 0)
   \<and> local_xz (h_playerRef (fst (updatePlayerMovement_hook hook_constants forward_right 0 hook_initial)))
       = Some (15 / 100, - (15 / 100))
   \<and> FIXED_SPEED_FACTOR hook_constants < sqrt ((15 / 100 - 0)\<^sup>2 + (- (15 / 100) - 0)\<^sup>2)"
proof -
  have mv: "hook_move hook_constants forward_right 0 = (15 / 100, - (15 / 100))"
    by (simp add: hook_move_def hook_constants_def forward_right_def Let_def)
  have c: "c_WORLD_BOUNDS hook_constants = WORLD_BOUNDS" "PLAYER_DEFAULT_Y hook_constants = 1"
      "attemptJump forward_right = False"
    by (simp_all add: hook_constants_def forward_right_def)
  have "local_xz (h_playerRef (fst (updatePlayerMovement_hook hook_constants forward_right 0 hook_initial)))
       = Some (15 / 100, - (15 / 100))"
    by (simp add: updatePlayerMovement_hook_def mv c Let_def local_xz_def hook_initial_def
        initial_client_def clampX_def clampZ_def WORLD_BOUNDS_def)
  moreover have "FIXED_SPEED_FACTOR hook_constants < sqrt ((15 / 100 - 0)\<^sup>2 + (- (15 / 100) - 0)\<^sup>2)"
    by (rule real_less_rsqrt) (simp add: hook_constants_def power2_eq_square)
  moreover have "local_xz (h_playerRef hook_initial) = Some (0, 0)"
    by (simp add: local_xz_def hook_initial_def initial_client_def)
  ultimately show ?thesis by simp
qed

text \<open>Read on the mesh itself: its distance from the starting point (0, 0) exceeds the speed.\<close>

theorem C8_hook_diagonal_exceeds_speed_witness:
  "map_option
     (\<lambda>m. FIXED_SPEED_FACTOR hook_constants
            < sqrt ((vx (position m) - 0)\<^sup>2 + (vz (position m) - 0)\<^sup>2))
     (h_playerRef (fst (updatePlayerMovement_hook hook_constants forward_right 0 hook_initial)))
   = Some True"
proof -
  from C8_hook_diagonal_exceeds_speed
  obtain m where m: "h_playerRef (fst (updatePlayerMovement_hook hook_constants forward_right 0
        hook_initial)) = Some m"
    and x: "vx (position m) = 15 / 100" and z: "vz (position m) = - (15 / 100)"
    by (auto simp add: local_xz_def)
  from C8_hook_diagonal_exceeds_speed
  have "FIXED_SPEED_FACTOR hook_constants < sqrt ((15 / 100 - 0)\<^sup>2 + (- (15 / 100) - 0)\<^sup>2)"
    by (rule conjunct2 [THEN conjunct2])
  then show ?thesis by (simp only: m x z option.map)
qed

text \<open>The same for any positive speed constant: the diagonal step is longer than the speed.\<close>

lemma hook_move_diagonal:
  assumes "0 < FIXED_SPEED_FACTOR c"
  shows "hook_move c forward_right 0 = (FIXED_SPEED_FACTOR c, - FIXED_SPEED_FACTOR c)
    \<and> FIXED_SPEED_FACTOR c < sqrt ((FIXED_SPEED_FACTOR c)\<^sup>2 + (- FIXED_SPEED_FACTOR c)\<^sup>2)"
proof
  show "hook_move c forward_right 0 = (FIXED_SPEED_FACTOR c, - FIXED_SPEED_FACTOR c)"
    by (simp add: hook_move_def forward_right_def Let_def)
  have "(FIXED_SPEED_FACTOR c)\<^sup>2 < (FIXED_SPEED_FACTOR c)\<^sup>2 + (- FIXED_SPEED_FACTOR c)\<^sup>2"
    using assms by simp
  then show "FIXED_SPEED_FACTOR c < sqrt ((FIXED_SPEED_FACTOR c)\<^sup>2 + (- FIXED_SPEED_FACTOR c)\<^sup>2)"
    by (rule real_less_rsqrt)
qed

text \<open>
  The mover of \<^verbatim>\<open>src/frontend/components/GameCanvas.tsx\<close> does normalise: for every
  combination of keys and every camera angle its step is at most \<open>MOVEMENT_SPEED\<close> long.
\<close>

lemma scaled_unit_le:
  fixes u w l k :: real
  assumes "0 < l" and "u\<^sup>2 + w\<^sup>2 \<le> l\<^sup>2" and "0 \<le> k"
  shows "sqrt ((u * (1 / l) * k)\<^sup>2 + (w * (1 / l) * k)\<^sup>2) \<le> k"
proof -
  have "(u * (1 / l) * k)\<^sup>2 + (w * (1 / l) * k)\<^sup>2 = (u\<^sup>2 + w\<^sup>2) / l\<^sup>2 * k\<^sup>2"
    by (simp add: power_mult_distrib power_divide add_divide_distrib ring_distribs)
  also have "\<dots> \<le> 1 * k\<^sup>2"
  proof (rule mult_right_mono)
    show "(u\<^sup>2 + w\<^sup>2) / l\<^sup>2 \<le> 1" using assms(1,2) by simp
    show "0 \<le> k\<^sup>2" by simp
  qed
  finally have "(u * (1 / l) * k)\<^sup>2 + (w * (1 / l) * k)\<^sup>2 \<le> k\<^sup>2"
    by simp
  then have "sqrt ((u * (1 / l) * k)\<^sup>2 + (w * (1 / l) * k)\<^sup>2) \<le> sqrt (k\<^sup>2)"
    by (rule real_sqrt_le_mono)
  with assms(3) show ?thesis by simp
qed

lemma frontend_step_le_speed:
  "sqrt ((vx (movement_step k a))\<^sup>2 + (vz (movement_step k a))\<^sup>2) \<le> MOVEMENT_SPEED"
proof -
  define m where "m = movement_sum k a"
  define l where "l = v_length m"
  have l2: "l\<^sup>2 = (vx m)\<^sup>2 + (vy m)\<^sup>2 + (vz m)\<^sup>2"
    unfolding l_def v_length_def by (simp add: power2_eq_square)
  have S: "0 \<le> MOVEMENT_SPEED" by (simp add: MOVEMENT_SPEED_def)
  show ?thesis
  proof (cases "0 < l")
    case True
    have "(vx m)\<^sup>2 + (vz m)\<^sup>2 \<le> l\<^sup>2" using l2 by simp
    from scaled_unit_le [OF True this S] True show ?thesis
      by (simp add: movement_step_def Let_def m_def [symmetric] l_def [symmetric]
          normalize_def divideScalar_def multiplyScalar_def)
  next
    case False
    have "0 \<le> l" unfolding l_def v_length_def by simp
    with False have "l = 0" by simp
    then have "(vx m)\<^sup>2 + (vy m)\<^sup>2 + (vz m)\<^sup>2 = 0" using l2 by simp
    moreover have "0 \<le> (vy m)\<^sup>2" by simp
    ultimately have "(vx m)\<^sup>2 + (vz m)\<^sup>2 \<le> 0" by linarith
    then have "vx m = 0 \<and> vz m = 0"
      by (simp only: sum_power2_le_zero_iff)
    with False S show ?thesis
      by (simp add: movement_step_def Let_def m_def [symmetric] l_def [symmetric] multiplyScalar_def)
  qed
qed

lemma frontend_displacement_le_speed:
  assumes "playerRef st = Some m"
  shows "\<exists>m'. playerRef (updatePlayerMovement k a t st) = Some m'
     \<and> sqrt ((vx (position m') - vx (position m))\<^sup>2 + (vz (position m') - vz (position m))\<^sup>2)
         \<le> MOVEMENT_SPEED"
proof -
  from update_xz [of k a t st] assms
  obtain m' where m': "playerRef (updatePlayerMovement k a t st) = Some m'"
    and "vx (position m') = vx (position m) + vx (movement_step k a)"
    and "vz (position m') = vz (position m) + vz (movement_step k a)"
    by (auto simp add: local_xz_def)
  with frontend_step_le_speed [of k a] show ?thesis by simp
qed

section \<open>Outbound position reports in the older component\<close>

text \<open>
  The older \<^verbatim>\<open>sendPositionUpdate\<close> is synchronous.  Along its frame loop, too, every
  window [t, t + 100) of the clock holds at most one report.
\<close>

lemma detect_time:
  "detectAnomalousMovement fl s = Inr s' \<Longrightarrow> lastSendTime s' = lastSendTime s"
  by (drule detect_result) auto

lemma legacy_move_time:
  assumes "updatePlayerMovement_legacy fl k delta t st = Inr st1"
  shows "lastSendTime st1 = lastSendTime st"
proof (cases "playerRef st")
  case None
  with assms show ?thesis by (simp add: updatePlayerMovement_legacy_def)
next
  case (Some player)
  from legacy_unfold [OF Some, of fl k delta t] assms show ?thesis
    by (auto simp add: Let_def split: if_splits dest: detect_time detect_time [OF sym])
qed

lemma send_legacy_None_time:
  "sendPositionUpdate_legacy t st = (st', None) \<Longrightarrow> lastSendTime st' = lastSendTime st"
  by (auto simp add: sendPositionUpdate_legacy_def Let_def split: option.splits if_splits)

lemma send_legacy_Some_time:
  "sendPositionUpdate_legacy t st = (st', Some r) \<Longrightarrow>
     lastSendTime st' = t \<and> lastSendTime st + SEND_INTERVAL \<le> t"
  by (auto simp add: sendPositionUpdate_legacy_def Let_def split: option.splits if_splits)

lemma frames_legacy_spaced:
  "sorted_wrt (\<lambda>a b. fst a + SEND_INTERVAL \<le> fst b) (frames_legacy fl st fs)
   \<and> (\<forall>r \<in> set (frames_legacy fl st fs). lastSendTime st + SEND_INTERVAL \<le> fst r)"
proof (induction fs arbitrary: st)
  case Nil
  show ?case by simp
next
  case (Cons f fs)
  obtain k delta t1 t2 where f: "f = (k, delta, t1, t2)" by (cases f)
  show ?case
  proof (cases "updatePlayerMovement_legacy fl k delta t1 st")
    case (Inl e)
    with f show ?thesis by simp
  next
    case (Inr st1)
    then have m: "lastSendTime st1 = lastSendTime st" by (rule legacy_move_time)
    obtain st2 out where s: "sendPositionUpdate_legacy t2 st1 = (st2, out)"
      by (cases "sendPositionUpdate_legacy t2 st1")
    show ?thesis
    proof (cases out)
      case None
      with s have "lastSendTime st2 = lastSendTime st1" by (simp add: send_legacy_None_time)
      with Cons.IH [of st2] s None Inr f m show ?thesis by simp
    next
      case (Some r)
      with s have t: "lastSendTime st2 = t2" "lastSendTime st1 + SEND_INTERVAL \<le> t2"
        using send_legacy_Some_time by blast+
      have "0 \<le> SEND_INTERVAL" by (simp add: SEND_INTERVAL_def)
      with Cons.IH [of st2] s Some Inr f m t show ?thesis by fastforce
    qed
  qed
qed

lemma frames_legacy_window:
  "length (filter (\<lambda>r. t \<le> fst r \<and> fst r < t + SEND_INTERVAL) (frames_legacy fl st fs)) \<le> 1"
  using frames_legacy_spaced [of fl st fs] spaced_window by blast

section \<open>Anomaly guard in doubles\<close>








end
